theory Spec2Isabelle
  imports Main
begin

section \<open>The API application initialiser: \<open>server/web/__init__.py\<close>\<close>

text \<open>
  The module builds the Flask application (\<open>create_app\<close>), installs three
  application-level error handlers, registers the process with Service Discovery when
  the deployment asks for it, and arms the shutdown hooks that deregister it
  (\<open>exit_app\<close>, \<open>destroy_app\<close>, \<open>deregister_app\<close>).

  Python exceptions are values of a result type, mutation is explicit state passing,
  and everything the module imports from outside its own file is a parameter of the
  function that uses it.
\<close>

subsection \<open>JSON values\<close>

text \<open>
  The values \<open>json.loads\<close> returns and \<open>json.dumps\<close> takes. A dict is the list of
  its items, read with \<open>map_of\<close>; a dict literal of the source is written in the order
  of its items. A number is given by its integer value: every number is a scalar, which
  is all that subscripting looks at.
\<close>

datatype json =
    JNull
  | JBool bool
  | JInt int
  | JStr string
  | JArr "json list"
  | JObj "(string \<times> json) list"

text \<open>
  The text \<open>json.dumps\<close> returns is identified by the value it serialises: the order
  of the keys and the white space of the text are the serialiser's choice, not the
  module's.
\<close>

datatype json_text = Dumps json

definition json_dumps :: "json \<Rightarrow> json_text" where
  "json_dumps v = Dumps v"

text \<open>Reading one field of a serialised object, as a client that parses the body does.\<close>

fun field :: "string \<Rightarrow> json_text \<Rightarrow> json option" where
  "field k (Dumps (JObj items)) = map_of items k"
| "field k (Dumps _) = None"

subsection \<open>Python exceptions\<close>

text \<open>A subscript \<open>['key']\<close> or \<open>[i]\<close> with \<open>i \<ge> 0\<close> (the source only writes \<open>[0]\<close>).\<close>

datatype subscript = Key string | Index nat

text \<open>
  The exceptions the module's own code can meet. \<open>KeyError\<close> carries the key that
  was not found. \<open>Error\<close> stands for any exception raised inside code the module
  calls (the JSON parser, the Service Discovery client, the \<open>__unicode__\<close> or
  \<open>__str__\<close> of an exception, the decoding of a byte string), given by its text. A
  computation that can raise returns \<open>Inl\<close> of the exception or \<open>Inr\<close> of its
  value.
\<close>

datatype py_exception =
    KeyError subscript
  | IndexError
  | TypeError
  | SystemExit int
  | Error string

subsection \<open>Failures raised while a request is handled\<close>

datatype error_kind = ValidationError | NotFoundError | AuthenticationError | InternalError

text \<open>
  Modelled from the spec: the class \<open>APIException\<close> of \<open>server.exceptions\<close> is not
  among the sources. By the spec's data model (ApiError) it carries a status code, a
  message, the internal details and a kind.
\<close>

record APIException =
  status_code :: int
  message :: string
  internal_details :: "string option"
  kind :: error_kind

text \<open>
  Modelled from the spec: the constructor call
  \<open>APIException(u'Server Error', internal_details=unicode(e))\<close> of the source. The
  class and its default status code are not among the sources; by the spec (section
  4.1) a failure from outside the taxonomy is wrapped as \<open>InternalError\<close>, status 500,
  with the given message and the given internal details.
\<close>

definition APIException_init :: "string \<Rightarrow> string \<Rightarrow> APIException" where
  "APIException_init msg details =
     \<lparr>status_code = 500, message = msg, internal_details = Some details,
      kind = InternalError\<rparr>"

text \<open>
  What a handler receives: an instance of \<open>APIException\<close> (or of a subclass), or any
  other exception. Of the latter the module evaluates \<open>unicode(e)\<close> and nothing
  else, so it is given by what that evaluation does: it returns a text, or it raises
  (on Python 2, \<open>UnicodeDecodeError\<close> for a message that is a byte string with a
  byte outside ASCII; whatever the exception's own \<open>__unicode__\<close> or \<open>__str__\<close>
  raises).
\<close>

datatype failure = Api APIException | Other "py_exception + string"

text \<open>
  Modelled from the spec: \<open>compose_error\<close> of \<open>server.web.utils\<close> is not among the
  sources. By the spec (ErrorResponseBody, section 6) the body of an error response is
  the object with the fields \<open>code\<close> and \<open>message\<close> of the classified error, to which
  a kind may add fields; none is named for any kind.
\<close>

definition compose_error :: "APIException \<Rightarrow> failure \<Rightarrow> json" where
  "compose_error exc e =
     JObj [(''code'', JInt (status_code exc)), (''message'', JStr (message exc))]"

subsection \<open>Responses and the three error handlers\<close>

record Response =
  body :: json_text
  status :: int
  mimetype :: string

text \<open>What a handler hands to \<open>current_app.logger\<close> before it builds its response.\<close>

datatype log_record = Log_error APIException | Log_exception failure

text \<open>
  \<open>exception_handler\<close>, registered for \<open>Exception\<close>. The helper \<open>compose_error\<close> is
  imported from a module that is not among the sources, so it is the parameter \<open>ce\<close>.
  \<open>unicode(e)\<close> is evaluated, outside any \<open>try\<close>, before anything is logged and
  before the response is built: when it raises, the handler raises, and there is no
  log record and no response.
\<close>

definition exception_handler ::
  "(APIException \<Rightarrow> failure \<Rightarrow> json) \<Rightarrow> failure \<Rightarrow>
   py_exception + log_record \<times> Response" where
  "exception_handler ce e =
     (case (case e of
              Other unicode_e \<Rightarrow>
                (case unicode_e of
                   Inl raised \<Rightarrow> Inl raised
                 | Inr rendering \<Rightarrow> Inr (APIException_init ''Server Error'' rendering))
            | Api a \<Rightarrow> Inr a) of
        Inl raised \<Rightarrow> Inl raised
      | Inr exc \<Rightarrow>
          Inr (Log_error exc,
               \<lparr>body = json_dumps (ce exc e),
                status = status_code exc,
                mimetype = ''application/json''\<rparr>))"

text \<open>
  \<open>not_found_handler\<close>, registered for 404. \<open>request_wants_json\<close> is imported from a
  module that is not among the sources and reads the request in flight: it is the
  parameter \<open>wants_json\<close>, applied to the request \<open>req\<close>. The \<open>else\<close> branch is
  \<open>pass\<close>: the handler returns Python's \<open>None\<close>.
\<close>

definition not_found_handler ::
  "('req \<Rightarrow> bool) \<Rightarrow> 'req \<Rightarrow> failure \<Rightarrow> log_record \<times> Response option" where
  "not_found_handler wants_json req e =
     (Log_exception e,
      if wants_json req then
        (let status_code = 404
         in Some \<lparr>body = json_dumps (JObj [(''code'', JInt status_code),
                                            (''message'', JStr ''Resource not found.'')]),
                  status = status_code,
                  mimetype = ''application/json''\<rparr>)
      else None)"

text \<open>
  \<open>bad_request_handler\<close>, registered for 400. It runs for the request \<open>req\<close> in
  flight and never looks at it.
\<close>

definition bad_request_handler :: "'req \<Rightarrow> failure \<Rightarrow> log_record \<times> Response" where
  "bad_request_handler req e =
     (Log_exception e,
      (let status_code = 400
       in \<lparr>body = json_dumps (JObj [(''code'', JInt status_code),
                                     (''message'', JStr ''Bad request.'')]),
           status = status_code,
           mimetype = ''application/json''\<rparr>))"

subsection \<open>Reading the environment and parsed JSON\<close>

definition bind :: "py_exception + 'a \<Rightarrow> ('a \<Rightarrow> py_exception + 'b) \<Rightarrow> py_exception + 'b" where
  "bind m f = (case m of Inl e \<Rightarrow> Inl e | Inr v \<Rightarrow> f v)"

text \<open>\<open>env[k]\<close> on \<open>os.environ\<close>: a missing variable raises \<open>KeyError\<close>.\<close>

definition environ_getitem :: "(string \<rightharpoonup> string) \<Rightarrow> string \<Rightarrow> py_exception + string" where
  "environ_getitem env k = (case env k of None \<Rightarrow> Inl (KeyError (Key k)) | Some v \<Rightarrow> Inr v)"

text \<open>
  Subscripting a parsed JSON value. A dict has string keys only, so an integer
  subscript finds no key; a list or a string takes integers only; a string yields the
  string of one character; a scalar cannot be subscripted.
\<close>

fun getitem :: "json \<Rightarrow> subscript \<Rightarrow> py_exception + json" where
  "getitem (JObj items) (Key k) =
     (case map_of items k of None \<Rightarrow> Inl (KeyError (Key k)) | Some v \<Rightarrow> Inr v)"
| "getitem (JObj items) (Index i) = Inl (KeyError (Index i))"
| "getitem (JArr xs) (Index i) = (if i < length xs then Inr (xs ! i) else Inl IndexError)"
| "getitem (JArr xs) (Key k) = Inl TypeError"
| "getitem (JStr s) (Index i) = (if i < length s then Inr (JStr [s ! i]) else Inl IndexError)"
| "getitem (JStr s) (Key k) = Inl TypeError"
| "getitem v sub = Inl TypeError"

subsection \<open>The Flask application\<close>

text \<open>
  What \<open>create_app\<close> puts into the application object. The views, the blueprints and
  \<open>setup_auth_from_request\<close> are names only: their code is outside this module.
\<close>

datatype view = View_root | View_static_proxy

datatype blueprint =
    demos_v1_blueprint
  | shipments_v1_blueprint
  | distribution_centers_v1_blueprint
  | retailers_v1_blueprint
  | products_v1_blueprint

datatype handled = Any_Exception | Status int

datatype handler = Handler_exception | Handler_bad_request | Handler_not_found

record Flask =
  import_name :: string
  static_folder :: string
  debug :: bool
  url_rules :: "(string \<times> view) list"
  cors_any_origin_with_credentials :: bool
  blueprints :: "(blueprint \<times> string) list"
  before_request_funcs :: "string list"
  error_handlers :: "(handled \<times> handler) list"

text \<open>\<open>server.config.Config\<close>: the two settings \<open>create_app\<close> reads.\<close>

record Config =
  ENVIRONMENT :: string
  SD_STATUS :: string

subsection \<open>Service Discovery\<close>

text \<open>
  The publisher object of \<open>bluemix_service_discovery\<close>. The module reads one
  attribute of it, \<open>registered\<close>; whatever else the object holds is the extension of
  the record.
\<close>

record publisher =
  registered :: bool

text \<open>
  The arguments of the constructor call, in the order of the source: name, TTL,
  status, endpoint, protocol, \<open>tags\<close>, \<open>url\<close>, \<open>auth_token\<close>.
\<close>

datatype publisher_args =
  Publisher_args string int string json string "string list" json json

text \<open>
  The client library is a collaborator: its constructor and the two methods the module
  calls are parameters. A method returns the object as the call leaves it and the
  exception it raised, if any; the module discards the value a method returns.
\<close>

record 'a service_discovery =
  ServicePublisher :: "publisher_args \<Rightarrow> py_exception + 'a publisher_scheme"
  register_service ::
    "bool \<Rightarrow> 'a publisher_scheme \<Rightarrow> 'a publisher_scheme \<times> py_exception option"
  deregister_service ::
    "'a publisher_scheme \<Rightarrow> 'a publisher_scheme \<times> py_exception option"

text \<open>What the process does that can be seen from outside, in order.\<close>

datatype event =
    Track_deployment
  | Print string
  | Call_register_service bool
  | Call_deregister_service

definition deregister_calls :: "event list \<Rightarrow> nat" where
  "deregister_calls evs = count_list evs Call_deregister_service"

subsection \<open>Deregistration\<close>

text \<open>
  \<open>deregister_app(publisher)\<close>. The argument is \<open>None\<close> or the publisher object; the
  function returns the object as it leaves it, the events so far, and \<open>Inr ()\<close> or
  the exception that escapes. \<open>and\<close> does not read \<open>registered\<close> of \<open>None\<close>.
\<close>

fun deregister_app ::
  "('a publisher_scheme \<Rightarrow> 'a publisher_scheme \<times> py_exception option) \<Rightarrow>
   'a publisher_scheme option \<Rightarrow> event list \<Rightarrow>
   'a publisher_scheme option \<times> event list \<times> (py_exception + unit)" where
  "deregister_app dereg None evs = (None, evs, Inr ())"
| "deregister_app dereg (Some publisher) evs =
     (if registered publisher then
        (let printed = evs @ [Print ''Deregistering service from Service Discovery''];
             (publisher', raised) = dereg publisher
         in (Some publisher', printed @ [Call_deregister_service],
             case raised of None \<Rightarrow> Inr () | Some e \<Rightarrow> Inl e))
      else (Some publisher, evs, Inr ()))"

text \<open>\<open>destroy_app(publisher)\<close>, the process-exit hook.\<close>

definition destroy_app ::
  "('a publisher_scheme \<Rightarrow> 'a publisher_scheme \<times> py_exception option) \<Rightarrow>
   'a publisher_scheme option \<Rightarrow> event list \<Rightarrow>
   'a publisher_scheme option \<times> event list \<times> (py_exception + unit)" where
  "destroy_app dereg publisher evs = deregister_app dereg publisher evs"

text \<open>
  \<open>exit_app(*args)\<close>, the signal handler, a closure over \<open>publisher\<close>. \<open>exit(0)\<close> is
  \<open>sys.exit\<close>: it raises \<open>SystemExit(0)\<close>, and is reached only when
  \<open>deregister_app\<close> returns.
\<close>

definition exit_app ::
  "('a publisher_scheme \<Rightarrow> 'a publisher_scheme \<times> py_exception option) \<Rightarrow>
   'a publisher_scheme option \<Rightarrow> event list \<Rightarrow>
   'a publisher_scheme option \<times> event list \<times> (py_exception + unit)" where
  "exit_app dereg publisher evs =
     (case deregister_app dereg publisher evs of
        (publisher', evs', Inl e) \<Rightarrow> (publisher', evs', Inl e)
      | (publisher', evs', Inr u) \<Rightarrow> (publisher', evs', Inl (SystemExit 0)))"

text \<open>
  Two calls of the deregistration routine in sequence on the same object, as two
  shutdown triggers make them: the second call runs whatever the first one did.
\<close>

definition deregister_app_twice ::
  "('a publisher_scheme \<Rightarrow> 'a publisher_scheme \<times> py_exception option) \<Rightarrow>
   'a publisher_scheme option \<Rightarrow> event list \<Rightarrow>
   'a publisher_scheme option \<times> event list \<times> (py_exception + unit)" where
  "deregister_app_twice dereg publisher evs =
     (case deregister_app dereg publisher evs of
        (publisher', evs', r) \<Rightarrow> deregister_app dereg publisher' evs')"

subsection \<open>The process: start-up and shutdown triggers\<close>

datatype signum = SIGINT | SIGTERM

text \<open>The two closures \<open>create_app\<close> arms; both hold the publisher it created.\<close>

datatype hook = Hook_exit_app | Hook_destroy_app

text \<open>
  What one call of \<open>create_app\<close> leaves in the process: the publisher its hooks
  share (\<open>None\<close> when no hook was armed), the handlers installed with \<open>signal\<close>, the
  functions registered with \<open>atexit\<close>, and the events so far.
\<close>

record 'a process =
  shared_publisher :: "'a publisher_scheme option"
  signal_handlers :: "signum \<rightharpoonup> hook"
  atexit_funcs :: "hook list"
  events :: "event list"

text \<open>
  Lines 118 to 122 of the source: the arguments of \<open>ServicePublisher(...)\<close>, evaluated
  in the order Python evaluates them. \<open>json.loads\<close> is the parameter \<open>loads\<close>. The
  first exception ends the evaluation.
\<close>

definition publisher_arguments ::
  "(string \<rightharpoonup> string) \<Rightarrow> (string \<Rightarrow> py_exception + json) \<Rightarrow> py_exception + publisher_args" where
  "publisher_arguments env loads =
     bind (environ_getitem env ''VCAP_SERVICES'') (\<lambda>services_text.
     bind (loads services_text) (\<lambda>services.
     bind (getitem services (Key ''service_discovery'')) (\<lambda>instances.
     bind (getitem instances (Index 0)) (\<lambda>instance.
     bind (getitem instance (Key ''credentials'')) (\<lambda>creds.
     bind (environ_getitem env ''VCAP_APPLICATION'') (\<lambda>application_text.
     bind (loads application_text) (\<lambda>application.
     bind (getitem application (Key ''application_uris'')) (\<lambda>uris.
     bind (getitem uris (Index 0)) (\<lambda>endpoint.
     bind (environ_getitem env ''LOGISTICS_WIZARD_ENV'') (\<lambda>lw_env.
     bind (getitem creds (Key ''url'')) (\<lambda>url.
     bind (getitem creds (Key ''auth_token'')) (\<lambda>auth_token.
       Inr (Publisher_args ''lw-controller'' 300 ''UP'' endpoint ''http''
              [''logistics-wizard'', ''front-end'', lw_env] url auth_token)))))))))))))"

text \<open>The application object \<open>create_app\<close> returns, whatever happens to discovery.\<close>

definition logistics_wizard :: "Config \<Rightarrow> Flask" where
  "logistics_wizard cfg =
     \<lparr>import_name = ''logistics_wizard'',
      static_folder = ''ui_dist'',
      debug = (ENVIRONMENT cfg = ''DEV''),
      url_rules = [(''/'', View_root), (''/<path:path>'', View_static_proxy)],
      cors_any_origin_with_credentials = True,
      blueprints =
        [(demos_v1_blueprint, ''/api/v1''),
         (shipments_v1_blueprint, ''/api/v1''),
         (distribution_centers_v1_blueprint, ''/api/v1''),
         (retailers_v1_blueprint, ''/api/v1''),
         (products_v1_blueprint, ''/api/v1'')],
      before_request_funcs = [''setup_auth_from_request''],
      error_handlers =
        [(Any_Exception, Handler_exception),
         (Status 400, Handler_bad_request),
         (Status 404, Handler_not_found)]\<rparr>"

text \<open>
  \<open>create_app()\<close>. It returns what it has done to the process and either the
  application or the exception that escapes it. No call of the discovery block is
  wrapped in \<open>try\<close>: an exception of \<open>register_service\<close> leaves \<open>create_app\<close> before
  \<open>signal\<close> and \<open>atexit.register\<close> are reached.
\<close>

definition create_app ::
  "Config \<Rightarrow> (string \<rightharpoonup> string) \<Rightarrow> (string \<Rightarrow> py_exception + json) \<Rightarrow>
   'a service_discovery \<Rightarrow> 'a process \<times> (py_exception + Flask)" where
  "create_app cfg env loads sd =
     (let tracked = \<lparr>shared_publisher = None, signal_handlers = Map.empty,
                      atexit_funcs = [], events = [Track_deployment]\<rparr>
      in if SD_STATUS cfg = ''ON'' \<and> env ''VCAP_APPLICATION'' \<noteq> None then
           (case bind (publisher_arguments env loads) (ServicePublisher sd) of
              Inl e \<Rightarrow> (tracked, Inl e)
            | Inr created \<Rightarrow>
                (let (publisher, raised) = register_service sd True created;
                     called = tracked\<lparr>events := events tracked @ [Call_register_service True]\<rparr>
                 in case raised of
                      Some e \<Rightarrow> (called, Inl e)
                    | None \<Rightarrow>
                        (called\<lparr>shared_publisher := Some publisher,
                                signal_handlers :=
                                  (signal_handlers called)
                                    (SIGTERM \<mapsto> Hook_exit_app, SIGINT \<mapsto> Hook_exit_app),
                                atexit_funcs := atexit_funcs called @ [Hook_destroy_app]\<rparr>,
                         Inr (logistics_wizard cfg))))
         else (tracked, Inr (logistics_wizard cfg)))"

subsection \<open>Signals that land while \<open>deregister_service\<close> runs\<close>

text \<open>
  Python runs a signal handler in the main thread, on top of whatever the main thread
  is executing. \<open>deregister_app\<close> takes no lock and does not clear \<open>registered\<close>
  itself, so a handler that starts while a call of \<open>deregister_service\<close> is running
  finds the object as that call found it.

  An arrival is a signal that lands while a call of \<open>deregister_service\<close> is running
  and has not yet changed the object, together with the signals that land in the same
  way during the call its own handler makes.
\<close>

datatype arrival = Arrival signum "arrival list"

text \<open>What a hook does after \<open>deregister_app\<close>: \<open>exit_app\<close> goes on to \<open>exit(0)\<close>.\<close>

definition hook_outcome :: "hook \<Rightarrow> py_exception + unit \<Rightarrow> py_exception + unit" where
  "hook_outcome h r =
     (case h of
        Hook_destroy_app \<Rightarrow> r
      | Hook_exit_app \<Rightarrow> (case r of Inl e \<Rightarrow> Inl e | Inr u \<Rightarrow> Inl (SystemExit 0)))"

text \<open>
  \<open>deregister_service_interrupted\<close> is one call of \<open>publisher.deregister_service()\<close>
  with the arrivals that land during it, \<open>handlers\<close> being the table \<open>signal\<close> has
  filled. An arrival runs its handler, which is lines 142 to 144 again on the same
  object (\<open>deregister_interrupted\<close>, the guarded call of \<open>deregister_app\<close> on an
  object that is not \<open>None\<close>) and then the rest of the hook. An exception that leaves
  the handler surfaces inside the interrupted call and ends it; a handler that returns
  lets the call go on. A signal with no handler in the table runs no code of the
  module. With no arrival left the call takes effect: \<open>dereg\<close> is applied.
\<close>

fun deregister_service_interrupted ::
  "('a publisher_scheme \<Rightarrow> 'a publisher_scheme \<times> py_exception option) \<Rightarrow>
   (signum \<rightharpoonup> hook) \<Rightarrow> arrival list \<Rightarrow> 'a publisher_scheme \<Rightarrow> event list \<Rightarrow>
   'a publisher_scheme \<times> event list \<times> py_exception option"
and deregister_interrupted ::
  "('a publisher_scheme \<Rightarrow> 'a publisher_scheme \<times> py_exception option) \<Rightarrow>
   (signum \<rightharpoonup> hook) \<Rightarrow> arrival list \<Rightarrow> 'a publisher_scheme \<Rightarrow> event list \<Rightarrow>
   'a publisher_scheme \<times> event list \<times> (py_exception + unit)" where
  "deregister_service_interrupted dereg handlers [] publisher evs =
     (case dereg publisher of (publisher', raised) \<Rightarrow> (publisher', evs, raised))"
| "deregister_service_interrupted dereg handlers (Arrival s inner # later) publisher evs =
     (case handlers s of
        None \<Rightarrow> deregister_service_interrupted dereg handlers later publisher evs
      | Some h \<Rightarrow>
          (case deregister_interrupted dereg handlers inner publisher evs of
             (publisher', evs', r) \<Rightarrow>
               (case hook_outcome h r of
                  Inl e \<Rightarrow> (publisher', evs', Some e)
                | Inr u \<Rightarrow>
                    deregister_service_interrupted dereg handlers later publisher' evs')))"
| "deregister_interrupted dereg handlers arrivals publisher evs =
     (if registered publisher then
        (case deregister_service_interrupted dereg handlers arrivals publisher
                (evs @ [Print ''Deregistering service from Service Discovery'',
                        Call_deregister_service]) of
           (publisher', evs', raised) \<Rightarrow>
             (publisher', evs', case raised of None \<Rightarrow> Inr () | Some e \<Rightarrow> Inl e))
      else (publisher, evs, Inr ()))"

text \<open>
  \<open>deregister_app(publisher)\<close> with the arrivals that land during the call of
  \<open>deregister_service\<close> it makes, if it makes one. With no arrival it is
  \<open>deregister_app\<close>.
\<close>

definition deregister_app_interrupted ::
  "('a publisher_scheme \<Rightarrow> 'a publisher_scheme \<times> py_exception option) \<Rightarrow>
   (signum \<rightharpoonup> hook) \<Rightarrow> arrival list \<Rightarrow> 'a publisher_scheme option \<Rightarrow> event list \<Rightarrow>
   'a publisher_scheme option \<times> event list \<times> (py_exception + unit)" where
  "deregister_app_interrupted dereg handlers arrivals publisher evs =
     (case publisher of
        None \<Rightarrow> (None, evs, Inr ())
      | Some p \<Rightarrow>
          (case deregister_interrupted dereg handlers arrivals p evs of
             (p', evs', r) \<Rightarrow> (Some p', evs', r)))"

text \<open>Running an armed hook on the publisher the process shares.\<close>

definition run_hook ::
  "('a publisher_scheme \<Rightarrow> 'a publisher_scheme \<times> py_exception option) \<Rightarrow>
   hook \<Rightarrow> arrival list \<Rightarrow> 'a process \<Rightarrow> 'a process \<times> (py_exception + unit)" where
  "run_hook dereg h arrivals proc =
     (case deregister_app_interrupted dereg (signal_handlers proc) arrivals
             (shared_publisher proc) (events proc) of
        (publisher', evs', r) \<Rightarrow>
          (proc\<lparr>shared_publisher := publisher', events := evs'\<rparr>, hook_outcome h r))"

text \<open>
  A shutdown trigger: a signal runs the handler installed for it, if any; the exit of
  the interpreter runs the \<open>atexit\<close> functions, last registered first, each whatever
  the one before it raised. A trigger carries the arrivals that land during its hook:
  one list for a signal, one list for each \<open>atexit\<close> function in the order they run
  (none for a function that has no list). A trigger is sequential when nothing lands
  during it: its hook has finished before the next signal arrives.
\<close>

datatype trigger = Signal signum "arrival list" | Interpreter_exit "arrival list list"

fun sequential :: "trigger \<Rightarrow> bool" where
  "sequential (Signal s arrivals) = (arrivals = [])"
| "sequential (Interpreter_exit arrivalss) = list_all (\<lambda>arrivals. arrivals = []) arrivalss"

fun run_atexit ::
  "('a publisher_scheme \<Rightarrow> 'a publisher_scheme \<times> py_exception option) \<Rightarrow>
   hook list \<Rightarrow> arrival list list \<Rightarrow> 'a process \<Rightarrow> 'a process" where
  "run_atexit dereg [] arrivalss proc = proc"
| "run_atexit dereg (h # hs) arrivalss proc =
     run_atexit dereg hs (drop 1 arrivalss)
       (fst (run_hook dereg h (case arrivalss of [] \<Rightarrow> [] | arrivals # rest \<Rightarrow> arrivals) proc))"

fun fire ::
  "('a publisher_scheme \<Rightarrow> 'a publisher_scheme \<times> py_exception option) \<Rightarrow>
   trigger \<Rightarrow> 'a process \<Rightarrow> 'a process" where
  "fire dereg (Signal s arrivals) proc =
     (case signal_handlers proc s of
        None \<Rightarrow> proc
      | Some h \<Rightarrow> fst (run_hook dereg h arrivals proc))"
| "fire dereg (Interpreter_exit arrivalss) proc =
     run_atexit dereg (rev (atexit_funcs proc)) arrivalss proc"

fun fire_all ::
  "('a publisher_scheme \<Rightarrow> 'a publisher_scheme \<times> py_exception option) \<Rightarrow>
   trigger list \<Rightarrow> 'a process \<Rightarrow> 'a process" where
  "fire_all dereg [] proc = proc"
| "fire_all dereg (t # ts) proc = fire_all dereg ts (fire dereg t proc)"

subsection \<open>A deployment to run the definitions on\<close>

text \<open>
  A Cloud Foundry environment with one Service Discovery instance bound, a parser that
  knows its two JSON texts, and three clients: one whose calls succeed, one whose
  \<open>register_service\<close> raises, one whose \<open>deregister_service\<close> raises after it has
  cleared the flag.
\<close>

definition prod_config :: Config where
  "prod_config = \<lparr>ENVIRONMENT = ''PROD'', SD_STATUS = ''ON''\<rparr>"

definition cf_environ :: "string \<rightharpoonup> string" where
  "cf_environ =
     [''VCAP_SERVICES'' \<mapsto> ''services.json'',
      ''VCAP_APPLICATION'' \<mapsto> ''application.json'',
      ''LOGISTICS_WIZARD_ENV'' \<mapsto> ''PROD'']"

definition cf_loads :: "string \<Rightarrow> py_exception + json" where
  "cf_loads doc =
     (if doc = ''services.json'' then
        Inr (JObj [(''service_discovery'',
               JArr [JObj [(''credentials'',
                       JObj [(''url'', JStr ''https://sd.example''),
                             (''auth_token'', JStr ''token'')])]])])
      else if doc = ''application.json'' then
        Inr (JObj [(''application_uris'', JArr [JStr ''lw.example'']), (''name'', JStr ''lw'')])
      else Inl (Error ''ValueError''))"

definition clear_flag :: "publisher \<Rightarrow> publisher \<times> py_exception option" where
  "clear_flag p = (p\<lparr>registered := False\<rparr>, None)"

definition clear_flag_and_raise :: "publisher \<Rightarrow> publisher \<times> py_exception option" where
  "clear_flag_and_raise p = (p\<lparr>registered := False\<rparr>, Some (Error ''RegistryUnavailable''))"

definition working_client :: "unit service_discovery" where
  "working_client =
     \<lparr>ServicePublisher = (\<lambda>args. Inr \<lparr>registered = False\<rparr>),
      register_service = (\<lambda>heartbeat p. (p\<lparr>registered := True\<rparr>, None)),
      deregister_service = clear_flag\<rparr>"

definition unreachable_registry :: "unit service_discovery" where
  "unreachable_registry =
     \<lparr>ServicePublisher = (\<lambda>args. Inr \<lparr>registered = False\<rparr>),
      register_service = (\<lambda>heartbeat p. (p, Some (Error ''RegistryUnavailable''))),
      deregister_service = clear_flag_and_raise\<rparr>"

section \<open>Properties of the error handlers\<close>

text \<open>
  A failure that is not an \<open>APIException\<close> and that \<open>unicode(e)\<close> renders is answered
  with status 500 and a body whose \<open>message\<close> field is exactly \<open>Server Error\<close>,
  whatever the rendering is: nothing of it, which is what \<open>internal_details\<close> holds,
  reaches the client. The status and the body come from the constructor of
  \<open>APIException\<close> and from \<open>compose_error\<close>, both taken from the spec.
\<close>

lemma exception_handler_rendered:
  "exception_handler compose_error (Other (Inr rendering)) =
     Inr (Log_error (APIException_init ''Server Error'' rendering),
          \<lparr>body = json_dumps (JObj [(''code'', JInt 500),
                                    (''message'', JStr ''Server Error'')]),
           status = 500, mimetype = ''application/json''\<rparr>)
   \<and> field ''message''
         (json_dumps (JObj [(''code'', JInt 500), (''message'', JStr ''Server Error'')]))
       = Some (JStr ''Server Error'')"
  by (simp add: exception_handler_def compose_error_def APIException_init_def json_dumps_def)

text \<open>
  When \<open>unicode(e)\<close> raises, so does the handler, for every \<open>compose_error\<close>: it has
  logged nothing and it returns no response.
\<close>

lemma exception_handler_raises_with_unicode:
  "exception_handler ce (Other (Inl raised)) = Inl raised"
  by (simp add: exception_handler_def)

text \<open>
  Claim C2 says that every failure that is not an \<open>APIException\<close> is answered with
  status 500 and the message \<open>Server Error\<close>, and the docstring of the handler that it
  handles any exception and returns a response. The handler does not do so for a failure
  whose \<open>unicode(e)\<close> raises, such as \<open>Exception('\xe9')\<close> on Python 2: the
  \<open>UnicodeDecodeError\<close> leaves the handler, and there is no response with status 500.
\<close>

theorem exception_handler_unicode_raises:
  "exception_handler compose_error (Other (Inl (Error ''UnicodeDecodeError'')))
     = Inl (Error ''UnicodeDecodeError'')"
  by (simp add: exception_handler_def)

text \<open>
  Claim C7. An \<open>APIException\<close> is passed through unchanged: it is the exception that is
  logged and the one handed to \<open>compose_error\<close>, and the status of the response is its
  own \<open>status_code\<close>. This holds for every \<open>compose_error\<close>.
\<close>

theorem exception_handler_passes_through:
  "exception_handler ce (Api a) =
     Inr (Log_error a,
          \<lparr>body = json_dumps (ce a (Api a)), status = status_code a,
           mimetype = ''application/json''\<rparr>)"
  by (simp add: exception_handler_def)

text \<open>
  Claim C4. When the request prefers JSON, the 404 handler returns status 404, the
  JSON content type and the serialised object with \<open>code\<close> 404 and \<open>message\<close>
  \<open>Resource not found.\<close>
\<close>

theorem not_found_handler_json:
  "wants_json req \<Longrightarrow>
   snd (not_found_handler wants_json req e) =
     Some \<lparr>body = json_dumps (JObj [(''code'', JInt 404),
                                     (''message'', JStr ''Resource not found.'')]),
           status = 404, mimetype = ''application/json''\<rparr>"
  by (simp add: not_found_handler_def)

theorem not_found_handler_json_witness:
  "snd (not_found_handler (\<lambda>accept. accept = ''application/json'') ''application/json''
          (Other (Inr ''404 Not Found''))) =
     Some \<lparr>body = json_dumps (JObj [(''code'', JInt 404),
                                     (''message'', JStr ''Resource not found.'')]),
           status = 404, mimetype = ''application/json''\<rparr>"
  using not_found_handler_json [of "\<lambda>accept. accept = ''application/json''"
          "''application/json''" "Other (Inr ''404 Not Found'')"]
  by simp

text \<open>
  Claim C5. When the request does not prefer JSON, the 404 handler builds no response
  at all: it returns \<open>None\<close>, and what is sent is left to the framework.
\<close>

theorem not_found_handler_no_json:
  "\<not> wants_json req \<Longrightarrow> snd (not_found_handler wants_json req e) = None"
  by (simp add: not_found_handler_def)

theorem not_found_handler_no_json_witness:
  "snd (not_found_handler (\<lambda>accept. accept = ''application/json'') ''text/html''
          (Other (Inr ''404 Not Found''))) = None"
  using not_found_handler_no_json [of "\<lambda>accept. accept = ''application/json''"
          "''text/html''" "Other (Inr ''404 Not Found'')"]
  by simp

text \<open>
  Claim C6. The 400 handler returns status 400, the JSON content type and the
  serialised object with \<open>code\<close> 400 and \<open>message\<close> \<open>Bad request.\<close>, and returns the
  same for any two requests, whatever they accept.
\<close>

theorem bad_request_handler_always:
  "snd (bad_request_handler req e) =
     \<lparr>body = json_dumps (JObj [(''code'', JInt 400), (''message'', JStr ''Bad request.'')]),
      status = 400, mimetype = ''application/json''\<rparr>
   \<and> snd (bad_request_handler req e) = snd (bad_request_handler req' e)"
  by (simp add: bad_request_handler_def)

section \<open>Properties of deregistration\<close>

text \<open>
  Claim C9. \<open>destroy_app\<close> and \<open>deregister_app\<close> are the same function: the same
  object, the same events and the same outcome on every argument.
\<close>

theorem destroy_app_is_deregister_app:
  "destroy_app dereg publisher evs = deregister_app dereg publisher evs"
  by (simp add: destroy_app_def)

text \<open>
  Claim C10. When the publisher is \<open>None\<close> or its flag is false, \<open>deregister_app\<close>
  calls nothing, prints nothing, leaves the object as it is and returns normally.
\<close>

theorem deregister_app_guard:
  "publisher = None \<or> (\<exists>p. publisher = Some p \<and> \<not> registered p) \<Longrightarrow>
   deregister_app dereg publisher evs = (publisher, evs, Inr ())"
  by auto

theorem deregister_app_guard_witness:
  "deregister_app clear_flag_and_raise None [Track_deployment]
     = (None, [Track_deployment], Inr ())
   \<and> deregister_app clear_flag_and_raise (Some \<lparr>registered = False\<rparr>) [Track_deployment]
       = (Some \<lparr>registered = False\<rparr>, [Track_deployment], Inr ())"
  using deregister_app_guard [of None clear_flag_and_raise "[Track_deployment]"]
        deregister_app_guard [of "Some \<lparr>registered = False\<rparr>" clear_flag_and_raise
          "[Track_deployment]"]
  by simp

subsection \<open>One call on a registered or an idle publisher\<close>

lemma deregister_calls_append:
  "deregister_calls (xs @ ys) = deregister_calls xs + deregister_calls ys"
  by (induction xs) (simp_all add: deregister_calls_def)

lemma deregister_app_idle:
  "(\<forall>p. publisher = Some p \<longrightarrow> \<not> registered p) \<Longrightarrow>
   deregister_app dereg publisher evs = (publisher, evs, Inr ())"
  by (cases publisher) simp_all

lemma deregister_app_registered:
  "registered p \<Longrightarrow>
   deregister_app dereg (Some p) evs =
     (Some (fst (dereg p)),
      evs @ [Print ''Deregistering service from Service Discovery'', Call_deregister_service],
      case snd (dereg p) of None \<Rightarrow> Inr () | Some e \<Rightarrow> Inl e)"
  by (simp add: case_prod_beta)

lemma deregister_app_twice_registered:
  assumes clears: "\<forall>p. \<not> registered (fst (dereg p))" and reg: "registered p"
  shows "deregister_app_twice dereg (Some p) evs =
           (Some (fst (dereg p)),
            evs @ [Print ''Deregistering service from Service Discovery'',
                   Call_deregister_service],
            Inr ())"
  using clears reg
  by (simp add: deregister_app_twice_def deregister_app_registered deregister_app_idle
           del: deregister_app.simps)

lemma deregister_app_twice_at_most_once:
  assumes clears: "\<forall>p. \<not> registered (fst (dereg p))"
  shows "deregister_calls (fst (snd (deregister_app_twice dereg publisher evs)))
           \<le> deregister_calls evs + 1"
proof (cases "\<forall>p. publisher = Some p \<longrightarrow> \<not> registered p")
  case True
  then show ?thesis
    by (simp add: deregister_app_twice_def deregister_app_idle del: deregister_app.simps)
next
  case False
  then obtain p where "publisher = Some p" "registered p" by blast
  then show ?thesis
    using deregister_app_twice_registered [OF clears, of p evs]
    by (simp add: deregister_calls_append) (simp add: deregister_calls_def)
qed

subsection \<open>Hooks without arrivals are the hooks of the source\<close>

lemma deregister_app_interrupted_Nil:
  "deregister_app_interrupted dereg handlers [] publisher evs =
     deregister_app dereg publisher evs"
  by (cases publisher) (simp_all add: deregister_app_interrupted_def case_prod_beta)

lemma run_hook_exit_app:
  "run_hook dereg Hook_exit_app [] proc =
     (case exit_app dereg (shared_publisher proc) (events proc) of
        (publisher', evs', r) \<Rightarrow> (proc\<lparr>shared_publisher := publisher', events := evs'\<rparr>, r))"
  by (simp add: run_hook_def deregister_app_interrupted_Nil exit_app_def hook_outcome_def
        split: prod.splits sum.splits)

lemma run_hook_destroy_app:
  "run_hook dereg Hook_destroy_app [] proc =
     (case destroy_app dereg (shared_publisher proc) (events proc) of
        (publisher', evs', r) \<Rightarrow> (proc\<lparr>shared_publisher := publisher', events := evs'\<rparr>, r))"
  by (simp add: run_hook_def deregister_app_interrupted_Nil destroy_app_def hook_outcome_def
        split: prod.splits)

subsection \<open>Hooks and triggers\<close>

text \<open>
  Once the shared publisher is \<open>None\<close> or unregistered the process is idle: no hook
  and no trigger changes it, whatever lands. On a registered publisher a hook during
  which nothing lands makes one call and leaves the object as \<open>deregister_service\<close>
  does.
\<close>

lemma deregister_app_interrupted_idle:
  "(\<forall>p. publisher = Some p \<longrightarrow> \<not> registered p) \<Longrightarrow>
   deregister_app_interrupted dereg handlers arrivals publisher evs = (publisher, evs, Inr ())"
  by (cases publisher) (simp_all add: deregister_app_interrupted_def)

lemma run_hook_idle:
  "(\<forall>p. shared_publisher proc = Some p \<longrightarrow> \<not> registered p) \<Longrightarrow>
   fst (run_hook dereg h arrivals proc) = proc"
  by (simp add: run_hook_def deregister_app_interrupted_idle)

lemma run_hook_registered:
  "shared_publisher proc = Some p \<Longrightarrow> registered p \<Longrightarrow>
   fst (run_hook dereg h [] proc) =
     proc\<lparr>shared_publisher := Some (fst (dereg p)),
          events := events proc @ [Print ''Deregistering service from Service Discovery'',
                                   Call_deregister_service]\<rparr>"
  by (simp add: run_hook_def deregister_app_interrupted_Nil deregister_app_registered
           del: deregister_app.simps)

lemma run_atexit_idle:
  "(\<forall>p. shared_publisher proc = Some p \<longrightarrow> \<not> registered p) \<Longrightarrow>
   run_atexit dereg hs arrivalss proc = proc"
  by (induction hs arbitrary: arrivalss) (simp_all add: run_hook_idle)

lemma fire_idle:
  "(\<forall>p. shared_publisher proc = Some p \<longrightarrow> \<not> registered p) \<Longrightarrow> fire dereg t proc = proc"
  by (cases t) (simp_all add: run_hook_idle run_atexit_idle split: option.splits)

lemma fire_all_idle:
  "(\<forall>p. shared_publisher proc = Some p \<longrightarrow> \<not> registered p) \<Longrightarrow>
   fire_all dereg ts proc = proc"
  by (induction ts) (simp_all add: fire_idle)

lemma fire_sequential:
  assumes clears: "\<forall>p. \<not> registered (fst (dereg p))"
    and seq: "sequential t"
    and shared: "shared_publisher proc = Some p" and reg: "registered p"
  shows "fire dereg t proc = proc
         \<or> fire dereg t proc =
             proc\<lparr>shared_publisher := Some (fst (dereg p)),
                  events := events proc
                    @ [Print ''Deregistering service from Service Discovery'',
                       Call_deregister_service]\<rparr>"
proof (cases t)
  case (Signal s arrivals)
  with seq have "arrivals = []" by simp
  with Signal show ?thesis
    by (simp add: run_hook_registered [OF shared reg] split: option.splits)
next
  case (Interpreter_exit arrivalss)
  show ?thesis
  proof (cases "rev (atexit_funcs proc)")
    case Nil
    with Interpreter_exit show ?thesis by simp
  next
    case (Cons h hs)
    from seq Interpreter_exit
    have "(case arrivalss of [] \<Rightarrow> [] | arrivals # rest \<Rightarrow> arrivals) = []"
      by (cases arrivalss) simp_all
    then have "fire dereg t proc =
                 run_atexit dereg hs (drop 1 arrivalss) (fst (run_hook dereg h [] proc))"
      using Interpreter_exit Cons by simp
    also have "\<dots> = fst (run_hook dereg h [] proc)"
      using clears by (intro run_atexit_idle) (simp add: run_hook_registered [OF shared reg])
    finally show ?thesis
      by (simp add: run_hook_registered [OF shared reg])
  qed
qed

lemma fire_all_sequential:
  assumes clears: "\<forall>p. \<not> registered (fst (dereg p))"
    and shared: "shared_publisher proc = Some p" and reg: "registered p"
  shows "\<forall>t\<in>set ts. sequential t \<Longrightarrow>
         fire_all dereg ts proc = proc
         \<or> fire_all dereg ts proc =
             proc\<lparr>shared_publisher := Some (fst (dereg p)),
                  events := events proc
                    @ [Print ''Deregistering service from Service Discovery'',
                       Call_deregister_service]\<rparr>"
proof (induction ts)
  case Nil
  show ?case by simp
next
  case (Cons t ts)
  then have "sequential t" by simp
  from fire_sequential [OF clears this shared reg] show ?case
  proof
    assume "fire dereg t proc = proc"
    with Cons show ?thesis by simp
  next
    assume fired: "fire dereg t proc =
             proc\<lparr>shared_publisher := Some (fst (dereg p)),
                  events := events proc
                    @ [Print ''Deregistering service from Service Discovery'',
                       Call_deregister_service]\<rparr>"
    have "fire_all dereg ts (fire dereg t proc) = fire dereg t proc"
      using clears by (intro fire_all_idle) (simp add: fired)
    with fired show ?thesis by simp
  qed
qed

lemma fire_all_sequential_at_most_once:
  assumes clears: "\<forall>p. \<not> registered (fst (dereg p))"
    and seq: "\<forall>t\<in>set ts. sequential t"
  shows "deregister_calls (events (fire_all dereg ts proc))
           \<le> deregister_calls (events proc) + 1"
proof (cases "\<forall>p. shared_publisher proc = Some p \<longrightarrow> \<not> registered p")
  case True
  then show ?thesis by (simp add: fire_all_idle)
next
  case False
  then obtain p where "shared_publisher proc = Some p" "registered p" by blast
  from fire_all_sequential [OF clears this seq] show ?thesis
    by (auto simp: deregister_calls_append) (simp add: deregister_calls_def)
qed

text \<open>The example deployment, started with the working client.\<close>

lemma create_app_registered:
  "create_app prod_config cf_environ cf_loads working_client =
     (\<lparr>shared_publisher = Some \<lparr>registered = True\<rparr>,
       signal_handlers = [SIGTERM \<mapsto> Hook_exit_app, SIGINT \<mapsto> Hook_exit_app],
       atexit_funcs = [Hook_destroy_app],
       events = [Track_deployment, Call_register_service True]\<rparr>,
      Inr (logistics_wizard prod_config))"
  by (simp add: create_app_def prod_config_def cf_environ_def cf_loads_def working_client_def
        publisher_arguments_def bind_def environ_getitem_def)

text \<open>
  Claim C1 as the spec states it fails, with a \<open>deregister_service\<close> that leaves the
  flag false: SIGTERM runs \<open>exit_app\<close>, which finds the flag set and calls
  \<open>deregister_service\<close>; SIGINT lands while that call runs and runs \<open>exit_app\<close> again,
  which still finds the flag set and calls \<open>deregister_service\<close> a second time. The
  process has made two calls.
\<close>

theorem signal_during_deregister_service_counterexample:
  "registered (fst (clear_flag \<lparr>registered = True\<rparr>)) = False
   \<and> fire_all clear_flag [Signal SIGTERM [Arrival SIGINT []]]
       (fst (create_app prod_config cf_environ cf_loads working_client)) =
     \<lparr>shared_publisher = Some \<lparr>registered = False\<rparr>,
      signal_handlers = [SIGTERM \<mapsto> Hook_exit_app, SIGINT \<mapsto> Hook_exit_app],
      atexit_funcs = [Hook_destroy_app],
      events = [Track_deployment, Call_register_service True,
                Print ''Deregistering service from Service Discovery'',
                Call_deregister_service,
                Print ''Deregistering service from Service Discovery'',
                Call_deregister_service]\<rparr>
   \<and> deregister_calls (events (fire_all clear_flag [Signal SIGTERM [Arrival SIGINT []]]
       (fst (create_app prod_config cf_environ cf_loads working_client)))) = 2"
  by (simp add: create_app_registered run_hook_def deregister_app_interrupted_def
        hook_outcome_def clear_flag_def deregister_calls_def)

text \<open>
  Claim C1, amended. Let \<open>deregister_service\<close> leave the flag false. Then two calls of
  \<open>deregister_app\<close> in sequence on a registered publisher make exactly one call of
  \<open>deregister_service\<close> and leave the object as that one call leaves it; on any
  publisher they make at most one. Shutdown triggers that fire one after another,
  each hook finished before the next trigger fires, make at most one call between
  them: on a registered publisher they leave the process as it was or as one call
  leaves it.
\<close>

theorem deregistration_at_most_once:
  assumes clears: "\<forall>p. \<not> registered (fst (dereg p))"
  shows "(registered p \<longrightarrow>
            deregister_app_twice dereg (Some p) evs =
              (Some (fst (dereg p)),
               evs @ [Print ''Deregistering service from Service Discovery'',
                      Call_deregister_service],
               Inr ()))
         \<and> (registered p \<longrightarrow>
            deregister_calls (fst (snd (deregister_app_twice dereg (Some p) evs)))
              = deregister_calls evs + 1)
         \<and> deregister_calls (fst (snd (deregister_app_twice dereg publisher evs)))
              \<le> deregister_calls evs + 1
         \<and> ((\<forall>t\<in>set triggers. sequential t) \<and> shared_publisher proc = Some p \<and> registered p
              \<longrightarrow>
            fire_all dereg triggers proc = proc
            \<or> fire_all dereg triggers proc =
                proc\<lparr>shared_publisher := Some (fst (dereg p)),
                     events := events proc
                       @ [Print ''Deregistering service from Service Discovery'',
                          Call_deregister_service]\<rparr>)
         \<and> ((\<forall>t\<in>set triggers. sequential t) \<longrightarrow>
            deregister_calls (events (fire_all dereg triggers proc))
              \<le> deregister_calls (events proc) + 1)"
proof (intro conjI impI)
  assume "registered p"
  then show "deregister_app_twice dereg (Some p) evs =
              (Some (fst (dereg p)),
               evs @ [Print ''Deregistering service from Service Discovery'',
                      Call_deregister_service],
               Inr ())"
    by (rule deregister_app_twice_registered [OF clears])
next
  assume "registered p"
  then show "deregister_calls (fst (snd (deregister_app_twice dereg (Some p) evs)))
              = deregister_calls evs + 1"
    using deregister_app_twice_registered [OF clears, of p evs]
    by (simp add: deregister_calls_append) (simp add: deregister_calls_def)
next
  show "deregister_calls (fst (snd (deregister_app_twice dereg publisher evs)))
              \<le> deregister_calls evs + 1"
    by (rule deregister_app_twice_at_most_once [OF clears])
next
  assume "(\<forall>t\<in>set triggers. sequential t) \<and> shared_publisher proc = Some p \<and> registered p"
  then show "fire_all dereg triggers proc = proc
            \<or> fire_all dereg triggers proc =
                proc\<lparr>shared_publisher := Some (fst (dereg p)),
                     events := events proc
                       @ [Print ''Deregistering service from Service Discovery'',
                          Call_deregister_service]\<rparr>"
    using fire_all_sequential [OF clears, of proc p triggers] by blast
next
  assume "\<forall>t\<in>set triggers. sequential t"
  then show "deregister_calls (events (fire_all dereg triggers proc))
              \<le> deregister_calls (events proc) + 1"
    by (rule fire_all_sequential_at_most_once [OF clears])
qed

theorem deregistration_at_most_once_witness:
  "(\<forall>p. \<not> registered (fst (clear_flag p)))
   \<and> sequential (Signal SIGTERM []) \<and> sequential (Interpreter_exit [])
   \<and> sequential (Signal SIGINT [])
   \<and> shared_publisher (fst (create_app prod_config cf_environ cf_loads working_client))
       = Some \<lparr>registered = True\<rparr>
   \<and> deregister_app_twice clear_flag (Some \<lparr>registered = True\<rparr>) [] =
       (Some \<lparr>registered = False\<rparr>,
        [Print ''Deregistering service from Service Discovery'', Call_deregister_service],
        Inr ())
   \<and> deregister_calls
       (fst (snd (deregister_app_twice clear_flag (Some \<lparr>registered = True\<rparr>) []))) = 1
   \<and> deregister_calls (fst (snd (deregister_app_twice clear_flag None []))) \<le> 1
   \<and> deregister_calls
       (events (fire_all clear_flag [Signal SIGTERM [], Interpreter_exit [], Signal SIGINT []]
          (fst (create_app prod_config cf_environ cf_loads working_client)))) \<le> 1"
proof -
  have clears: "\<forall>p. \<not> registered (fst (clear_flag p))"
    by (simp add: clear_flag_def)
  have seq: "\<forall>t\<in>set [Signal SIGTERM [], Interpreter_exit [], Signal SIGINT []]. sequential t"
    by simp
  have shared: "shared_publisher (fst (create_app prod_config cf_environ cf_loads working_client))
       = Some \<lparr>registered = True\<rparr>"
    by (simp add: create_app_registered)
  have cleared: "fst (clear_flag \<lparr>registered = True\<rparr>) = \<lparr>registered = False\<rparr>"
    by (simp add: clear_flag_def)
  have started: "deregister_calls
       (events (fst (create_app prod_config cf_environ cf_loads working_client))) = 0"
    by (simp add: create_app_registered deregister_calls_def)
  have reg: "registered \<lparr>registered = True\<rparr>"
    by simp
  from reg seq deregistration_at_most_once [OF clears, of "\<lparr>registered = True\<rparr>" "[]" None
        "[Signal SIGTERM [], Interpreter_exit [], Signal SIGINT []]"
        "fst (create_app prod_config cf_environ cf_loads working_client)"]
  have "deregister_app_twice clear_flag (Some \<lparr>registered = True\<rparr>) [] =
          (Some (fst (clear_flag \<lparr>registered = True\<rparr>)),
           [] @ [Print ''Deregistering service from Service Discovery'', Call_deregister_service],
           Inr ())"
    and "deregister_calls
          (fst (snd (deregister_app_twice clear_flag (Some \<lparr>registered = True\<rparr>) [])))
           = deregister_calls [] + 1"
    and "deregister_calls (fst (snd (deregister_app_twice clear_flag None [])))
           \<le> deregister_calls [] + 1"
    and "deregister_calls
          (events (fire_all clear_flag [Signal SIGTERM [], Interpreter_exit [], Signal SIGINT []]
             (fst (create_app prod_config cf_environ cf_loads working_client))))
           \<le> deregister_calls
               (events (fst (create_app prod_config cf_environ cf_loads working_client))) + 1"
    by blast+
  with clears shared cleared started show ?thesis
    by (simp add: deregister_calls_def)
qed

section \<open>Properties of start-up and of the signal handler\<close>

text \<open>
  Claim C3 as the spec states it fails: with a client whose \<open>register_service\<close>
  raises, \<open>create_app\<close> does not return the application; the exception leaves it.
\<close>

theorem create_app_register_raises_counterexample:
  "snd (register_service unreachable_registry True \<lparr>registered = False\<rparr>)
     = Some (Error ''RegistryUnavailable'')
   \<and> snd (create_app prod_config cf_environ cf_loads unreachable_registry)
     = Inl (Error ''RegistryUnavailable'')
   \<and> snd (create_app prod_config cf_environ cf_loads unreachable_registry)
     \<noteq> Inr (logistics_wizard prod_config)"
  by (simp add: create_app_def prod_config_def cf_environ_def cf_loads_def
        unreachable_registry_def publisher_arguments_def bind_def environ_getitem_def)

text \<open>
  Claim C3, amended. When discovery is on, the publisher has been built and
  \<open>register_service\<close> raises, \<open>create_app\<close> arms no shutdown hook (no signal handler,
  no \<open>atexit\<close> function) and the exception of \<open>register_service\<close> leaves
  \<open>create_app\<close>: no application is returned.
\<close>

theorem create_app_register_raises:
  assumes "SD_STATUS cfg = ''ON''"
    and "env ''VCAP_APPLICATION'' \<noteq> None"
    and "publisher_arguments env loads = Inr args"
    and "ServicePublisher sd args = Inr created"
    and "snd (register_service sd True created) = Some e"
  shows "create_app cfg env loads sd =
           (\<lparr>shared_publisher = None, signal_handlers = Map.empty, atexit_funcs = [],
             events = [Track_deployment, Call_register_service True]\<rparr>,
            Inl e)"
  using assms by (simp add: create_app_def bind_def case_prod_beta)

theorem create_app_register_raises_witness:
  "SD_STATUS prod_config = ''ON''
   \<and> cf_environ ''VCAP_APPLICATION'' \<noteq> None
   \<and> publisher_arguments cf_environ cf_loads =
       Inr (Publisher_args ''lw-controller'' 300 ''UP'' (JStr ''lw.example'') ''http''
              [''logistics-wizard'', ''front-end'', ''PROD'']
              (JStr ''https://sd.example'') (JStr ''token''))
   \<and> create_app prod_config cf_environ cf_loads unreachable_registry =
         (\<lparr>shared_publisher = None, signal_handlers = Map.empty, atexit_funcs = [],
           events = [Track_deployment, Call_register_service True]\<rparr>,
          Inl (Error ''RegistryUnavailable''))"
proof -
  have on: "SD_STATUS prod_config = ''ON''"
    by (simp add: prod_config_def)
  have present: "cf_environ ''VCAP_APPLICATION'' \<noteq> None"
    by (simp add: cf_environ_def)
  have args: "publisher_arguments cf_environ cf_loads =
       Inr (Publisher_args ''lw-controller'' 300 ''UP'' (JStr ''lw.example'') ''http''
              [''logistics-wizard'', ''front-end'', ''PROD'']
              (JStr ''https://sd.example'') (JStr ''token''))"
    by (simp add: publisher_arguments_def bind_def environ_getitem_def cf_environ_def
          cf_loads_def)
  have created: "ServicePublisher unreachable_registry
       (Publisher_args ''lw-controller'' 300 ''UP'' (JStr ''lw.example'') ''http''
              [''logistics-wizard'', ''front-end'', ''PROD'']
              (JStr ''https://sd.example'') (JStr ''token'')) = Inr \<lparr>registered = False\<rparr>"
    by (simp add: unreachable_registry_def)
  have raises: "snd (register_service unreachable_registry True \<lparr>registered = False\<rparr>)
       = Some (Error ''RegistryUnavailable'')"
    by (simp add: unreachable_registry_def)
  from create_app_register_raises [OF on present args created raises] on present args
  show ?thesis by simp
qed

text \<open>
  Claim C8 as the spec states it fails: on a registered publisher, \<open>exit_app\<close> ends
  with \<open>SystemExit(0)\<close> when \<open>deregister_service\<close> returns, and with the exception of
  \<open>deregister_service\<close> when it raises. The two outcomes differ.
\<close>

theorem exit_app_raising_deregister_counterexample:
  "snd (snd (exit_app clear_flag (Some \<lparr>registered = True\<rparr>) [])) = Inl (SystemExit 0)
   \<and> snd (snd (exit_app clear_flag_and_raise (Some \<lparr>registered = True\<rparr>) []))
       = Inl (Error ''RegistryUnavailable'')
   \<and> snd (snd (exit_app clear_flag_and_raise (Some \<lparr>registered = True\<rparr>) []))
       \<noteq> Inl (SystemExit 0)"
  by (simp add: exit_app_def clear_flag_def clear_flag_and_raise_def)

text \<open>
  Claim C8, amended. On a registered publisher the signal handler \<open>exit_app\<close> makes
  the one deregistration attempt and then, if \<open>deregister_service\<close> returned (whatever
  state it left the publisher in), raises \<open>SystemExit(0)\<close>: the process exits with code
  0. If \<open>deregister_service\<close> raised, its exception leaves \<open>exit_app\<close> and \<open>exit(0)\<close> is
  not reached.
\<close>

theorem exit_app_exit_code:
  assumes "registered p"
  shows "exit_app dereg (Some p) evs =
           (Some (fst (dereg p)),
            evs @ [Print ''Deregistering service from Service Discovery'',
                   Call_deregister_service],
            Inl (case snd (dereg p) of None \<Rightarrow> SystemExit 0 | Some e \<Rightarrow> e))"
  using assms
  by (simp add: exit_app_def deregister_app_registered del: deregister_app.simps
         split: option.splits)

theorem exit_app_exit_code_witness:
  "registered \<lparr>registered = True\<rparr>
   \<and> exit_app clear_flag (Some \<lparr>registered = True\<rparr>) [] =
         (Some \<lparr>registered = False\<rparr>,
          [Print ''Deregistering service from Service Discovery'', Call_deregister_service],
          Inl (SystemExit 0))"
proof -
  have reg: "registered \<lparr>registered = True\<rparr>" by simp
  from exit_app_exit_code [OF reg, of clear_flag "[]"] reg
  show ?thesis by (simp add: clear_flag_def)
qed

end
